theory Spec2Isabelle
  imports Main "HOL-Library.Word"
begin

section \<open>PE analyzer (\<open>W3ChampAnalysis/tools/pe_analyzer.py\<close>)\<close>

text \<open>
  The script drives the third-party \<open>pefile\<close> library. The parsed image that
  \<open>pefile.PE\<close> hands back is an input of the model: a record holding exactly the
  attributes the script reads. An attribute that \<open>pefile\<close> leaves unset is an
  \<open>option\<close> that is \<open>None\<close>; reading it raises \<open>AttributeError\<close>.
\<close>

subsection \<open>Bytes, text and exceptions\<close>

type_synonym byte = "8 word"
type_synonym bytes = "byte list"

text \<open>A Python \<open>str\<close> is a sequence of Unicode code points.\<close>

type_synonym str = "nat list"

datatype exc = AttributeError | UnicodeDecodeError | TypeError | PEFormatError | OSError

text \<open>\<open>bytes.decode()\<close>: strict UTF-8, raising \<open>UnicodeDecodeError\<close> (here \<open>None\<close>).\<close>

definition is_cont :: "byte \<Rightarrow> bool" where
  "is_cont c = (0x80 \<le> c \<and> c \<le> 0xBF)"

definition cont_bits :: "byte \<Rightarrow> nat" where
  "cont_bits c = unat c - 0x80"

definition second_ok3 :: "byte \<Rightarrow> byte \<Rightarrow> bool" where
  "second_ok3 b c =
     (if b = 0xE0 then 0xA0 \<le> c \<and> c \<le> 0xBF
      else if b = 0xED then 0x80 \<le> c \<and> c \<le> 0x9F
      else is_cont c)"

definition second_ok4 :: "byte \<Rightarrow> byte \<Rightarrow> bool" where
  "second_ok4 b c =
     (if b = 0xF0 then 0x90 \<le> c \<and> c \<le> 0xBF
      else if b = 0xF4 then 0x80 \<le> c \<and> c \<le> 0x8F
      else is_cont c)"

text \<open>The first code point of a byte sequence and the bytes behind it.\<close>

fun decode_step :: "bytes \<Rightarrow> (nat \<times> bytes) option" where
  "decode_step [] = None"
| "decode_step (b # bs) =
     (if b < 0x80 then Some (unat b, bs)
      else if 0xC2 \<le> b \<and> b \<le> 0xDF then
        (case bs of
           c1 # r \<Rightarrow>
             if is_cont c1 then Some ((unat b - 0xC0) * 64 + cont_bits c1, r) else None
         | _ \<Rightarrow> None)
      else if 0xE0 \<le> b \<and> b \<le> 0xEF then
        (case bs of
           c1 # c2 # r \<Rightarrow>
             if second_ok3 b c1 \<and> is_cont c2
             then Some ((unat b - 0xE0) * 4096 + cont_bits c1 * 64 + cont_bits c2, r)
             else None
         | _ \<Rightarrow> None)
      else if 0xF0 \<le> b \<and> b \<le> 0xF4 then
        (case bs of
           c1 # c2 # c3 # r \<Rightarrow>
             if second_ok4 b c1 \<and> is_cont c2 \<and> is_cont c3
             then Some ((unat b - 0xF0) * 262144 + cont_bits c1 * 4096
                        + cont_bits c2 * 64 + cont_bits c3, r)
             else None
         | _ \<Rightarrow> None)
      else None)"

function decode :: "bytes \<Rightarrow> str option" where
  "decode [] = Some []"
| "decode (b # bs) =
     (case decode_step (b # bs) of
        None \<Rightarrow> None
      | Some (cp, rest) \<Rightarrow> map_option (Cons cp) (decode rest))"
  by pat_completeness auto
termination
  by (relation "measure length") (auto split: if_splits list.splits)

text \<open>\<open>s.rstrip('\x00')\<close>: drop every trailing NUL character.\<close>

definition rstrip_nul :: "str \<Rightarrow> str" where
  "rstrip_nul s = rev (dropWhile (\<lambda>c. c = 0) (rev s))"

text \<open>A string literal of the script, as code points.\<close>

definition lit :: "string \<Rightarrow> str" where
  "lit s = map of_char s"

text \<open>\<open>hex(n)\<close> and \<open>str(n)\<close> for a non-negative integer.\<close>

definition hex_digit :: "nat \<Rightarrow> char" where
  "hex_digit d = ''0123456789abcdef'' ! d"

fun hex_digits :: "nat \<Rightarrow> string" where
  "hex_digits n = (if n < 16 then [hex_digit n] else hex_digits (n div 16) @ [hex_digit (n mod 16)])"

definition hex :: "nat \<Rightarrow> str" where
  "hex n = lit (''0x'' @ hex_digits n)"

fun dec_digits :: "nat \<Rightarrow> string" where
  "dec_digits n = (if n < 10 then [hex_digit n] else dec_digits (n div 10) @ [hex_digit (n mod 10)])"

text \<open>Truth value of \<open>imp.name\<close> and \<open>exp.name\<close>: \<open>None\<close> and \<open>b''\<close> are false.\<close>

fun truthy_bytes :: "bytes option \<Rightarrow> bool" where
  "truthy_bytes None = False"
| "truthy_bytes (Some bs) = (bs \<noteq> [])"

subsection \<open>The regular expression \<open>[ -~]{n,}\<close>\<close>

definition printable :: "byte \<Rightarrow> bool" where
  "printable b = (0x20 \<le> b \<and> b \<le> 0x7E)"

text \<open>
  \<open>string_pattern.findall(data)\<close>: at each position the greedy class takes the longest
  run of printable bytes; a run of at least \<open>n\<close> bytes is a match and the scan resumes
  behind it, otherwise the scan moves one byte on. With \<open>n = 0\<close> the pattern also
  matches the empty string, at every position a match does not cover and at the end.
\<close>

function findall :: "nat \<Rightarrow> bytes \<Rightarrow> bytes list" where
  "findall n [] = (if n = 0 then [[]] else [])"
| "findall n (b # bs) =
     (let run = takeWhile printable (b # bs) in
      if run \<noteq> [] \<and> n \<le> length run
      then run # findall n (dropWhile printable (b # bs))
      else if run = [] \<and> n = 0 then [] # findall n bs
      else findall n bs)"
  by pat_completeness auto
termination
  by (relation "measure (\<lambda>(n, xs). length xs)")
     (auto simp: less_Suc_eq_le length_dropWhile_le split: if_splits)

subsection \<open>What \<open>pefile\<close> provides\<close>

record file_header =
  Machine :: nat
  TimeDateStamp :: nat
  Characteristics :: nat

record optional_header =
  Subsystem :: nat
  DllCharacteristics :: nat
  AddressOfEntryPoint :: nat
  ImageBase :: nat

text \<open>\<open>get_data\<close> is the outcome of calling \<open>section.get_data()\<close>.\<close>

record section_struct =
  Name :: bytes
  VirtualAddress :: nat
  Misc_VirtualSize :: nat
  PointerToRawData :: nat
  SizeOfRawData :: nat
  SectionCharacteristics :: nat
  get_data :: "exc + bytes"

record import_data =
  imp_name :: "bytes option"
  imp_ordinal :: "nat option"

record import_desc =
  entry_dll :: bytes
  entry_imports :: "import_data list"

record export_data =
  exp_name :: "bytes option"
  exp_ordinal :: nat
  exp_address :: nat

text \<open>
  A resource directory entry. Each attribute may be missing: \<open>e_name\<close> (then
  \<open>hasattr\<close> is false), \<open>e_directory\<close> (the entry is a data entry), \<open>e_data\<close> (the
  entry is a directory). \<open>e_id\<close> is \<open>None\<close> for Python's \<open>None\<close>.
\<close>

datatype pyname = PyNone | NameStr str

datatype res_data = ResData (OffsetToData: nat) (Size: nat)

datatype res_entry =
  ResEntry (e_name: "pyname option") (e_id: "nat option")
           (e_directory: "res_entry list option") (e_data: "res_data option")

record pe_file =
  FILE_HEADER :: file_header
  OPTIONAL_HEADER :: optional_header
  pe_sections :: "section_struct list"
  DIRECTORY_ENTRY_IMPORT :: "import_desc list option"
  DIRECTORY_ENTRY_EXPORT :: "export_data list option"
  DIRECTORY_ENTRY_RESOURCE :: "res_entry list option"

subsection \<open>The analyzer object and its results\<close>

record section_info =
  name :: str
  virtual_address :: str
  virtual_size :: str
  raw_address :: str
  raw_size :: str
  sec_characteristics :: str

record info =
  file_size :: nat
  machine :: str
  timestamp :: nat
  characteristics :: str
  subsystem :: str
  dll_characteristics :: str
  entry_point :: str
  image_base :: str
  sections :: "section_info list"

record import_rec =
  dll :: str
  dll_functions :: "str list"

datatype label = ByName pyname | ByHex str

record resource_rec =
  r_type :: label
  r_id :: label
  r_lang :: str
  r_offset :: str
  r_size :: str

text \<open>\<open>analysis_results\<close>: a dictionary with up to five keys; \<open>None\<close> is a key not set.\<close>

record results =
  res_basic_info :: "info option"
  res_imports :: "import_rec list option"
  res_exports :: "str list option"
  res_strings :: "str list option"
  res_resources :: "resource_rec list option"

text \<open>One constructor for each \<open>print\<close> of the script, and one for an uncaught traceback.\<close>

datatype msg =
    ErrorLoadingPE exc
  | NoImportDirectory
  | NoExportDirectory
  | NoResourceDirectory
  | ErrorReadingSection bytes exc
  | AnalyzingPE
  | Usage
  | FileNotFound str
  | AnalysisSaved str
  | AnalysisFailed
  | Traceback exc

text \<open>
  The object's three attributes, and what the process has printed so far. A method that
  raises returns \<open>Inl\<close> of the exception and the state it leaves.
\<close>

record analyzer =
  file_path :: str
  pe :: "pe_file option"
  analysis_results :: results
  printed :: "msg list"

text \<open>The library and operating-system calls of the script.\<close>

record env =
  pefile_PE :: "str \<Rightarrow> exc + pe_file"
  getsize :: "str \<Rightarrow> exc + nat"
  path_exists :: "str \<Rightarrow> bool"
  path_stem :: "str \<Rightarrow> str"
  open_w :: "str \<Rightarrow> exc option"

definition init :: "str \<Rightarrow> analyzer" where
  "init p = \<lparr>file_path = p, pe = None,
     analysis_results = \<lparr>res_basic_info = None, res_imports = None, res_exports = None,
                          res_strings = None, res_resources = None\<rparr>,
     printed = []\<rparr>"

definition say :: "msg \<Rightarrow> analyzer \<Rightarrow> analyzer" where
  "say m a = a\<lparr>printed := printed a @ [m]\<rparr>"

subsection \<open>\<open>load_pe\<close>\<close>

definition load_pe :: "env \<Rightarrow> analyzer \<Rightarrow> bool \<times> analyzer" where
  "load_pe ev a =
     (case pefile_PE ev (file_path a) of
        Inr p \<Rightarrow> (True, a\<lparr>pe := Some p\<rparr>)
      | Inl e \<Rightarrow> (False, say (ErrorLoadingPE e) a))"

subsection \<open>\<open>analyze_basic_info\<close>\<close>

fun section_infos :: "section_struct list \<Rightarrow> section_info list \<Rightarrow> exc + section_info list" where
  "section_infos [] acc = Inr acc"
| "section_infos (s # ss) acc =
     (case decode (Name s) of
        None \<Rightarrow> Inl UnicodeDecodeError
      | Some nm \<Rightarrow>
          section_infos ss
            (acc @ [\<lparr>name = rstrip_nul nm,
                     virtual_address = hex (VirtualAddress s),
                     virtual_size = hex (Misc_VirtualSize s),
                     raw_address = hex (PointerToRawData s),
                     raw_size = hex (SizeOfRawData s),
                     sec_characteristics = hex (SectionCharacteristics s)\<rparr>]))"

definition analyze_basic_info :: "env \<Rightarrow> analyzer \<Rightarrow> exc \<times> analyzer + analyzer" where
  "analyze_basic_info ev a =
     (case pe a of
        None \<Rightarrow> Inr a
      | Some p \<Rightarrow>
          (case getsize ev (file_path a) of
             Inl e \<Rightarrow> Inl (e, a)
           | Inr sz \<Rightarrow>
               (case section_infos (pe_sections p) [] of
                  Inl e \<Rightarrow> Inl (e, a)
                | Inr secs \<Rightarrow>
                    Inr (a\<lparr>analysis_results := (analysis_results a)\<lparr>res_basic_info := Some
                      \<lparr>file_size = sz,
                       machine = hex (Machine (FILE_HEADER p)),
                       timestamp = TimeDateStamp (FILE_HEADER p),
                       characteristics = hex (Characteristics (FILE_HEADER p)),
                       subsystem = hex (Subsystem (OPTIONAL_HEADER p)),
                       dll_characteristics = hex (DllCharacteristics (OPTIONAL_HEADER p)),
                       entry_point = hex (AddressOfEntryPoint (OPTIONAL_HEADER p)),
                       image_base = hex (ImageBase (OPTIONAL_HEADER p)),
                       sections = secs\<rparr>\<rparr>\<rparr>))))"

subsection \<open>\<open>analyze_imports\<close>\<close>

text \<open>The inner loop over \<open>entry.imports\<close>, appending to \<open>functions\<close>.\<close>

fun import_functions :: "import_data list \<Rightarrow> str list \<Rightarrow> exc + str list" where
  "import_functions [] fs = Inr fs"
| "import_functions (imp # imps) fs =
     (if truthy_bytes (imp_name imp) then
        (case decode (the (imp_name imp)) of
           None \<Rightarrow> Inl UnicodeDecodeError
         | Some s \<Rightarrow> import_functions imps (fs @ [s]))
      else if imp_ordinal imp \<noteq> None \<and> imp_ordinal imp \<noteq> Some 0 then
        import_functions imps (fs @ [lit (''Ordinal_'' @ dec_digits (the (imp_ordinal imp)))])
      else import_functions imps fs)"

text \<open>The outer loop over \<open>DIRECTORY_ENTRY_IMPORT\<close>, appending to \<open>imports\<close>.\<close>

fun import_entries :: "import_desc list \<Rightarrow> import_rec list \<Rightarrow> exc + import_rec list" where
  "import_entries [] acc = Inr acc"
| "import_entries (entry # entries) acc =
     (case decode (entry_dll entry) of
        None \<Rightarrow> Inl UnicodeDecodeError
      | Some dll_name \<Rightarrow>
          (case import_functions (entry_imports entry) [] of
             Inl e \<Rightarrow> Inl e
           | Inr fs \<Rightarrow>
               import_entries entries (acc @ [\<lparr>dll = dll_name, dll_functions = fs\<rparr>])))"

text \<open>
  The \<open>try\<close> catches \<open>AttributeError\<close> only, which the missing attribute
  \<open>DIRECTORY_ENTRY_IMPORT\<close> raises before the loop starts; a \<open>UnicodeDecodeError\<close>
  leaves the method.
\<close>

definition analyze_imports :: "analyzer \<Rightarrow> exc \<times> analyzer + analyzer" where
  "analyze_imports a =
     (case pe a of
        None \<Rightarrow> Inr a
      | Some p \<Rightarrow>
          (case DIRECTORY_ENTRY_IMPORT p of
             None \<Rightarrow>
               Inr ((say NoImportDirectory a)
                      \<lparr>analysis_results := (analysis_results a)\<lparr>res_imports := Some []\<rparr>\<rparr>)
           | Some entries \<Rightarrow>
               (case import_entries entries [] of
                  Inl e \<Rightarrow> Inl (e, a)
                | Inr imps \<Rightarrow>
                    Inr (a\<lparr>analysis_results :=
                             (analysis_results a)\<lparr>res_imports := Some imps\<rparr>\<rparr>))))"

subsection \<open>\<open>analyze_exports\<close>\<close>

fun export_symbols :: "export_data list \<Rightarrow> str list \<Rightarrow> exc + str list" where
  "export_symbols [] acc = Inr acc"
| "export_symbols (exp # exps) acc =
     (if truthy_bytes (exp_name exp) then
        (case decode (the (exp_name exp)) of
           None \<Rightarrow> Inl UnicodeDecodeError
         | Some s \<Rightarrow> export_symbols exps (acc @ [s]))
      else export_symbols exps acc)"

definition analyze_exports :: "analyzer \<Rightarrow> exc \<times> analyzer + analyzer" where
  "analyze_exports a =
     (case pe a of
        None \<Rightarrow> Inr a
      | Some p \<Rightarrow>
          (case DIRECTORY_ENTRY_EXPORT p of
             None \<Rightarrow>
               Inr ((say NoExportDirectory a)
                      \<lparr>analysis_results := (analysis_results a)\<lparr>res_exports := Some []\<rparr>\<rparr>)
           | Some symbols \<Rightarrow>
               (case export_symbols symbols [] of
                  Inl e \<Rightarrow> Inl (e, a)
                | Inr exps \<Rightarrow>
                    Inr (a\<lparr>analysis_results :=
                             (analysis_results a)\<lparr>res_exports := Some exps\<rparr>\<rparr>))))"

subsection \<open>\<open>extract_strings\<close>\<close>

text \<open>The loop over \<open>matches\<close>: a match that does not decode is skipped.\<close>

fun add_matches :: "bytes list \<Rightarrow> str list \<Rightarrow> str list" where
  "add_matches [] strs = strs"
| "add_matches (m # ms) strs =
     (case decode m of
        None \<Rightarrow> add_matches ms strs
      | Some s \<Rightarrow> if s \<in> set strs then add_matches ms strs else add_matches ms (strs @ [s]))"

text \<open>
  The loop over \<open>self.pe.sections\<close>, carrying \<open>strings\<close> and the lines printed: a
  section whose \<open>get_data()\<close> raises is reported and skipped.
\<close>

fun scan_sections :: "nat \<Rightarrow> section_struct list \<Rightarrow> str list \<times> msg list \<Rightarrow> str list \<times> msg list" where
  "scan_sections n [] st = st"
| "scan_sections n (s # ss) (strs, out) =
     (case get_data s of
        Inl e \<Rightarrow> scan_sections n ss (strs, out @ [ErrorReadingSection (Name s) e])
      | Inr data \<Rightarrow> scan_sections n ss (add_matches (findall n data) strs, out))"

definition extract_strings :: "nat \<Rightarrow> analyzer \<Rightarrow> analyzer" where
  "extract_strings min_length a =
     (case pe a of
        None \<Rightarrow> a
      | Some p \<Rightarrow>
          (let (strs, out) = scan_sections min_length (pe_sections p) ([], printed a)
           in a\<lparr>analysis_results := (analysis_results a)\<lparr>res_strings := Some strs\<rparr>,
                 printed := out\<rparr>))"

subsection \<open>\<open>analyze_resources\<close>\<close>

text \<open>
  \<open>x.name if hasattr(x, 'name') else hex(x.id)\<close>; \<open>hex(None)\<close> raises \<open>TypeError\<close>.
\<close>

definition entry_label :: "res_entry \<Rightarrow> exc + label" where
  "entry_label x =
     (case e_name x of
        Some nm \<Rightarrow> Inr (ByName nm)
      | None \<Rightarrow> (case e_id x of None \<Rightarrow> Inl TypeError | Some k \<Rightarrow> Inr (ByHex (hex k))))"

text \<open>The dictionary appended for one language entry, its values built in source order.\<close>

definition resource_of :: "res_entry \<Rightarrow> res_entry \<Rightarrow> res_entry \<Rightarrow> exc + resource_rec" where
  "resource_of resource_type resource_id resource_lang =
     (case entry_label resource_type of
        Inl e \<Rightarrow> Inl e
      | Inr t \<Rightarrow>
     (case entry_label resource_id of
        Inl e \<Rightarrow> Inl e
      | Inr i \<Rightarrow>
     (case e_id resource_lang of
        None \<Rightarrow> Inl TypeError
      | Some l \<Rightarrow>
     (case e_data resource_lang of
        None \<Rightarrow> Inl AttributeError
      | Some d \<Rightarrow>
          Inr \<lparr>r_type = t, r_id = i, r_lang = hex l,
               r_offset = hex (OffsetToData d), r_size = hex (Size d)\<rparr>))))"

text \<open>
  The three nested loops. Each returns the list built so far and the exception that
  stopped it, if any: the list survives an \<open>AttributeError\<close>, which the \<open>try\<close> catches.
\<close>

fun lang_loop :: "res_entry \<Rightarrow> res_entry \<Rightarrow> res_entry list \<Rightarrow> resource_rec list
                    \<Rightarrow> resource_rec list \<times> exc option" where
  "lang_loop t i [] acc = (acc, None)"
| "lang_loop t i (l # ls) acc =
     (case resource_of t i l of
        Inl e \<Rightarrow> (acc, Some e)
      | Inr r \<Rightarrow> lang_loop t i ls (acc @ [r]))"

fun id_loop :: "res_entry \<Rightarrow> res_entry list \<Rightarrow> resource_rec list
                  \<Rightarrow> resource_rec list \<times> exc option" where
  "id_loop t [] acc = (acc, None)"
| "id_loop t (i # is) acc =
     (case e_directory i of
        None \<Rightarrow> (acc, Some AttributeError)
      | Some langs \<Rightarrow>
          (case lang_loop t i langs acc of
             (acc', Some e) \<Rightarrow> (acc', Some e)
           | (acc', None) \<Rightarrow> id_loop t is acc'))"

fun type_loop :: "res_entry list \<Rightarrow> resource_rec list \<Rightarrow> resource_rec list \<times> exc option" where
  "type_loop [] acc = (acc, None)"
| "type_loop (t # ts) acc =
     (case e_directory t of
        None \<Rightarrow> (acc, Some AttributeError)
      | Some ids \<Rightarrow>
          (case id_loop t ids acc of
             (acc', Some e) \<Rightarrow> (acc', Some e)
           | (acc', None) \<Rightarrow> type_loop ts acc'))"

definition analyze_resources :: "analyzer \<Rightarrow> exc \<times> analyzer + analyzer" where
  "analyze_resources a =
     (case pe a of
        None \<Rightarrow> Inr a
      | Some p \<Rightarrow>
          (case (case DIRECTORY_ENTRY_RESOURCE p of
                   None \<Rightarrow> ([], Some AttributeError)
                 | Some entries \<Rightarrow> type_loop entries []) of
             (rs, None) \<Rightarrow>
               Inr (a\<lparr>analysis_results := (analysis_results a)\<lparr>res_resources := Some rs\<rparr>\<rparr>)
           | (rs, Some e) \<Rightarrow>
               if e = AttributeError
               then Inr ((say NoResourceDirectory a)
                      \<lparr>analysis_results := (analysis_results a)\<lparr>res_resources := Some rs\<rparr>\<rparr>)
               else Inl (e, a)))"

subsection \<open>\<open>run_analysis\<close> and \<open>main\<close>\<close>

definition run_analysis :: "env \<Rightarrow> analyzer \<Rightarrow> exc \<times> analyzer + bool \<times> analyzer" where
  "run_analysis ev a =
     (case load_pe ev a of
        (False, a0) \<Rightarrow> Inr (False, a0)
      | (True, a0) \<Rightarrow>
     (case analyze_basic_info ev (say AnalyzingPE a0) of
        Inl ea \<Rightarrow> Inl ea
      | Inr a1 \<Rightarrow>
     (case analyze_imports a1 of
        Inl ea \<Rightarrow> Inl ea
      | Inr a2 \<Rightarrow>
     (case analyze_exports a2 of
        Inl ea \<Rightarrow> Inl ea
      | Inr a3 \<Rightarrow>
     (case analyze_resources (extract_strings 4 a3) of
        Inl ea \<Rightarrow> Inl ea
      | Inr a5 \<Rightarrow> Inr (True, a5))))))"

text \<open>
  What a run of the script leaves behind: the exit status, the lines printed, and the
  report files written. \<open>save_analysis\<close> renders \<open>analysis_results\<close> into the file;
  the file is recorded here with the results it was rendered from. \<open>sys.exit(1)\<close> and
  an uncaught exception end the process with status 1, a normal return with status 0.
\<close>

record outcome =
  exit_status :: nat
  stdout :: "msg list"
  written :: "(str \<times> results) list"

definition save_analysis :: "env \<Rightarrow> analyzer \<Rightarrow> str \<Rightarrow> exc + (str \<times> results)" where
  "save_analysis ev a output_file =
     (case open_w ev output_file of
        Some e \<Rightarrow> Inl e
      | None \<Rightarrow> Inr (output_file, analysis_results a))"

definition main :: "env \<Rightarrow> str list \<Rightarrow> outcome" where
  "main ev argv =
     (if length argv \<noteq> 2 then \<lparr>exit_status = 1, stdout = [Usage], written = []\<rparr>
      else
        let path = argv ! 1 in
        if \<not> path_exists ev path
        then \<lparr>exit_status = 1, stdout = [FileNotFound path], written = []\<rparr>
        else
          (case run_analysis ev (init path) of
             Inl (e, a) \<Rightarrow> \<lparr>exit_status = 1, stdout = printed a @ [Traceback e], written = []\<rparr>
           | Inr (True, a) \<Rightarrow>
               (let output_file = path_stem ev path @ lit ''_analysis.txt'' in
                case save_analysis ev a output_file of
                  Inl e \<Rightarrow> \<lparr>exit_status = 1, stdout = printed a @ [Traceback e], written = []\<rparr>
                | Inr f \<Rightarrow>
                    \<lparr>exit_status = 0, stdout = printed a @ [AnalysisSaved output_file],
                     written = [f]\<rparr>)
           | Inr (False, a) \<Rightarrow>
               \<lparr>exit_status = 0, stdout = printed a @ [AnalysisFailed], written = []\<rparr>))"

subsection \<open>Example images\<close>

definition ascii :: "string \<Rightarrow> bytes" where
  "ascii s = map of_char s"

definition base_pe :: pe_file where
  "base_pe =
     \<lparr>FILE_HEADER = \<lparr>Machine = 0x14c, TimeDateStamp = 0, Characteristics = 0x102\<rparr>,
      OPTIONAL_HEADER = \<lparr>Subsystem = 3, DllCharacteristics = 0,
                         AddressOfEntryPoint = 0x1000, ImageBase = 0x400000\<rparr>,
      pe_sections = [], DIRECTORY_ENTRY_IMPORT = None, DIRECTORY_ENTRY_EXPORT = None,
      DIRECTORY_ENTRY_RESOURCE = None\<rparr>"

definition loaded :: "pe_file \<Rightarrow> analyzer" where
  "loaded p = (init (lit ''game.exe''))\<lparr>pe := Some p\<rparr>"

text \<open>An environment in which the file exists and \<open>pefile\<close> rejects it.\<close>

definition broken_env :: env where
  "broken_env =
     \<lparr>pefile_PE = (\<lambda>_. Inl PEFormatError), getsize = (\<lambda>_. Inr 64),
      path_exists = (\<lambda>_. True), path_stem = (\<lambda>p. takeWhile (\<lambda>c. c \<noteq> 46) p),
      open_w = (\<lambda>_. None)\<rparr>"







subsection \<open>The String Extractor as the specification words it\<close>




subsection \<open>Characterising the results\<close>

text \<open>A name that is absent, or that \<open>decode()\<close> accepts.\<close>

definition name_decodes :: "bytes option \<Rightarrow> bool" where
  "name_decodes nm = (case nm of None \<Rightarrow> True | Some bs \<Rightarrow> decode bs \<noteq> None)"

text \<open>The names of the symbols that have one, in table order.\<close>

definition exported_names :: "export_data list \<Rightarrow> str list" where
  "exported_names symbols =
     map (\<lambda>exp. the (decode (the (exp_name exp))))
       (filter (\<lambda>exp. truthy_bytes (exp_name exp)) symbols)"





text \<open>
  The resource directory with everything below the third level removed: a language
  entry keeps its data and loses its directory.
\<close>

definition leaf_only :: "res_entry \<Rightarrow> res_entry" where
  "leaf_only l = ResEntry (e_name l) (e_id l) None (e_data l)"

definition cut_id :: "res_entry \<Rightarrow> res_entry" where
  "cut_id i = ResEntry (e_name i) (e_id i) (map_option (map leaf_only) (e_directory i)) (e_data i)"

definition cut_type :: "res_entry \<Rightarrow> res_entry" where
  "cut_type t = ResEntry (e_name t) (e_id t) (map_option (map cut_id) (e_directory t)) (e_data t)"

definition cut_below_3 :: "res_entry list \<Rightarrow> res_entry list" where
  "cut_below_3 entries = map cut_type entries"

text \<open>
  A record that stems from a data entry exactly three levels down: a type entry, an id
  entry in its directory, and a language entry with data in that one's directory.
\<close>

definition at_depth_3 :: "res_entry list \<Rightarrow> resource_rec \<Rightarrow> bool" where
  "at_depth_3 entries r =
     (\<exists>t\<in>set entries. case e_directory t of None \<Rightarrow> False | Some ids \<Rightarrow>
        (\<exists>i\<in>set ids. case e_directory i of None \<Rightarrow> False | Some langs \<Rightarrow>
           (\<exists>l\<in>set langs. e_data l \<noteq> None \<and> resource_of t i l = Inr r)))"

subsection \<open>More example images\<close>

definition export_of :: "string \<Rightarrow> nat \<Rightarrow> export_data" where
  "export_of nm ord = \<lparr>exp_name = Some (ascii nm), exp_ordinal = ord, exp_address = 0x1000 + 16 * ord\<rparr>"

definition named_exports_pe :: pe_file where
  "named_exports_pe = base_pe\<lparr>DIRECTORY_ENTRY_EXPORT :=
     Some [export_of ''Init'' 5, export_of ''Run'' 6, export_of ''Stop'' 7]\<rparr>"

definition ordinal_export_pe :: pe_file where
  "ordinal_export_pe = base_pe\<lparr>DIRECTORY_ENTRY_EXPORT :=
     Some [export_of ''Init'' 5,
           \<lparr>exp_name = None, exp_ordinal = 6, exp_address = 0x1060\<rparr>,
           export_of ''Stop'' 7]\<rparr>"








definition data_entry :: "nat \<Rightarrow> nat \<Rightarrow> nat \<Rightarrow> res_entry" where
  "data_entry lang off sz = ResEntry (Some PyNone) (Some lang) None (Some (ResData off sz))"

definition dir_entry :: "nat \<Rightarrow> res_entry list \<Rightarrow> res_entry" where
  "dir_entry k children = ResEntry None (Some k) (Some children) None"

text \<open>
  A crafted directory: under type 3, id 1, the language entry 1033 carries both data and
  a further directory, which nests two more levels; and the last top-level entry is a
  data entry.
\<close>

definition deep_resources :: "res_entry list" where
  "deep_resources =
     [dir_entry 3
        [dir_entry 1
           [ResEntry None (Some 1033)
              (Some [dir_entry 7 [dir_entry 8 [data_entry 0 0x9000 4]]])
              (Some (ResData 0x4000 0x128)),
            data_entry 1031 0x4200 0x28]],
      dir_entry 16 [dir_entry 1 [data_entry 1033 0x5000 0x2C0]],
      data_entry 0 0x6000 8]"

definition deep_pe :: pe_file where
  "deep_pe = base_pe\<lparr>DIRECTORY_ENTRY_RESOURCE := Some deep_resources\<rparr>"

definition deep_result :: analyzer where
  "deep_result =
     (say NoResourceDirectory (loaded deep_pe))\<lparr>analysis_results :=
        (analysis_results (loaded deep_pe))\<lparr>res_resources := Some
          [\<lparr>r_type = ByHex (lit ''0x3''), r_id = ByHex (lit ''0x1''), r_lang = lit ''0x409'',
            r_offset = lit ''0x4000'', r_size = lit ''0x128''\<rparr>,
           \<lparr>r_type = ByHex (lit ''0x3''), r_id = ByHex (lit ''0x1''), r_lang = lit ''0x407'',
            r_offset = lit ''0x4200'', r_size = lit ''0x28''\<rparr>,
           \<lparr>r_type = ByHex (lit ''0x10''), r_id = ByHex (lit ''0x1''), r_lang = lit ''0x409'',
            r_offset = lit ''0x5000'', r_size = lit ''0x2c0''\<rparr>]\<rparr>\<rparr>"



section \<open>Properties\<close>

subsection \<open>Loading comes first\<close>

lemma components_need_pe:
  assumes "pe a = None"
  shows "analyze_basic_info ev a = Inr a" "analyze_imports a = Inr a"
    "analyze_exports a = Inr a" "extract_strings n a = a" "analyze_resources a = Inr a"
  using assms
  by (simp_all add: analyze_basic_info_def analyze_imports_def analyze_exports_def
      extract_strings_def analyze_resources_def)



subsection \<open>An absent import directory\<close>

text \<open>
  C6, as stated, fails: with no import directory the value stored under \<open>'imports'\<close> is
  the empty list, not \<open>None\<close>.
\<close>

theorem absent_imports_not_None:
  "\<not> isl (analyze_imports (loaded base_pe)) \<and>
   res_imports (analysis_results (projr (analyze_imports (loaded base_pe)))) \<noteq> None"
  by (simp add: analyze_imports_def say_def loaded_def base_pe_def init_def)

text \<open>
  C6, amended. When \<open>pefile\<close> has set no \<open>DIRECTORY_ENTRY_IMPORT\<close>, \<open>analyze_imports\<close>
  returns normally, stores the empty list under \<open>'imports'\<close>, prints one informational
  line and leaves every other result and attribute as it was.
\<close>

theorem absent_imports_give_empty_list:
  assumes "pe a = Some p" and "DIRECTORY_ENTRY_IMPORT p = None"
  shows "analyze_imports a =
           Inr (a\<lparr>analysis_results := (analysis_results a)\<lparr>res_imports := Some []\<rparr>,
                  printed := printed a @ [NoImportDirectory]\<rparr>)"
  using assms by (simp add: analyze_imports_def say_def)

theorem absent_imports_give_empty_list_witness:
  "analyze_imports (loaded base_pe) =
     Inr ((loaded base_pe)
            \<lparr>analysis_results := (analysis_results (loaded base_pe))\<lparr>res_imports := Some []\<rparr>,
             printed := [NoImportDirectory]\<rparr>)"
  using absent_imports_give_empty_list [of "loaded base_pe" base_pe]
  by (simp add: loaded_def base_pe_def init_def)

subsection \<open>The command line\<close>

lemma main_missing_path:
  "\<not> path_exists ev p \<Longrightarrow>
   main ev [script, p] = \<lparr>exit_status = 1, stdout = [FileNotFound p], written = []\<rparr>"
  by (simp add: main_def)

lemma main_success:
  assumes "path_exists ev p" and "run_analysis ev (init p) = Inr (True, a)"
    and "open_w ev (path_stem ev p @ lit ''_analysis.txt'') = None"
  shows "main ev [script, p] =
           \<lparr>exit_status = 0,
            stdout = printed a @ [AnalysisSaved (path_stem ev p @ lit ''_analysis.txt'')],
            written = [(path_stem ev p @ lit ''_analysis.txt'', analysis_results a)]\<rparr>"
  using assms by (simp add: main_def save_analysis_def Let_def)

text \<open>
  C8. A missing path ends the process with status 1 (\<open>main_missing_path\<close>) and a
  successful analysis writes the report and prints its path (\<open>main_success\<close>). When the
  image cannot be loaded, however, \<open>main\<close> prints \<open>Analysis failed\<close> and returns: the
  exit status is 0.
\<close>

theorem main_load_failure_exits_zero:
  "main broken_env [lit ''pe_analyzer.py'', lit ''notes.txt'']
     = \<lparr>exit_status = 0, stdout = [ErrorLoadingPE PEFormatError, AnalysisFailed], written = []\<rparr>"
  by (simp add: main_def run_analysis_def load_pe_def say_def init_def broken_env_def)

subsection \<open>String extraction\<close>





























subsection \<open>Exports\<close>

lemma export_symbols_names:
  "list_all (\<lambda>exp. name_decodes (exp_name exp)) exps \<Longrightarrow>
   export_symbols exps acc = Inr (acc @ exported_names exps)"
proof (induction exps arbitrary: acc)
  case Nil
  then show ?case by (simp add: exported_names_def)
next
  case (Cons exp exps)
  then show ?case
    by (cases "exp_name exp") (auto simp: exported_names_def name_decodes_def)
qed

text \<open>
  C2, as stated, fails: a symbol is appended only \<open>if exp.name\<close>, so a symbol exported
  by ordinal alone is left out, and ordinals are not recorded at all. Of three symbols
  with ordinals 5, 6, 7, the second without a name, two names remain.
\<close>

theorem nameless_export_left_out:
  "analyze_exports (loaded ordinal_export_pe) =
     Inr ((loaded ordinal_export_pe)\<lparr>analysis_results :=
            (analysis_results (loaded ordinal_export_pe))
              \<lparr>res_exports := Some [lit ''Init'', lit ''Stop'']\<rparr>\<rparr>)"
  by (simp add: analyze_exports_def loaded_def ordinal_export_pe_def base_pe_def init_def
      export_of_def ascii_def lit_def)

text \<open>
  C2, amended. When every name of the export table decodes, the export list is the
  decoded names of exactly the symbols that have a non-empty name, in table order; a
  symbol without a name is not included and no ordinal is recorded. With ordinal base 5
  and three named exports the list is the three names in table order.
\<close>

theorem exports_are_the_names:
  assumes "pe a = Some p" and "DIRECTORY_ENTRY_EXPORT p = Some symbols"
    and "list_all (\<lambda>exp. name_decodes (exp_name exp)) symbols"
  shows "analyze_exports a =
           Inr (a\<lparr>analysis_results :=
                    (analysis_results a)\<lparr>res_exports := Some (exported_names symbols)\<rparr>\<rparr>)"
  using assms by (simp add: analyze_exports_def export_symbols_names)

theorem exports_are_the_names_witness:
  "analyze_exports (loaded named_exports_pe) =
     Inr ((loaded named_exports_pe)\<lparr>analysis_results :=
            (analysis_results (loaded named_exports_pe))
              \<lparr>res_exports := Some [lit ''Init'', lit ''Run'', lit ''Stop'']\<rparr>\<rparr>)"
proof -
  have 1: "pe (loaded named_exports_pe) = Some named_exports_pe" by (simp add: loaded_def)
  have 2: "DIRECTORY_ENTRY_EXPORT named_exports_pe
             = Some [export_of ''Init'' 5, export_of ''Run'' 6, export_of ''Stop'' 7]"
    by (simp add: named_exports_pe_def)
  have 3: "list_all (\<lambda>exp. name_decodes (exp_name exp))
             [export_of ''Init'' 5, export_of ''Run'' 6, export_of ''Stop'' 7]"
    by (simp add: export_of_def name_decodes_def ascii_def)
  have 4: "exported_names [export_of ''Init'' 5, export_of ''Run'' 6, export_of ''Stop'' 7]
             = [lit ''Init'', lit ''Run'', lit ''Stop'']"
    by (simp add: exported_names_def export_of_def ascii_def lit_def)
  from exports_are_the_names [OF 1 2 3] show ?thesis by (simp add: 4)
qed

subsection \<open>Imports\<close>







subsection \<open>Resources\<close>

lemma entry_label_cut [simp]:
  "entry_label (cut_type t) = entry_label t" "entry_label (cut_id i) = entry_label i"
  by (simp_all add: entry_label_def cut_type_def cut_id_def split: option.splits)

lemma resource_of_cut [simp]:
  "resource_of (cut_type t) (cut_id i) (leaf_only l) = resource_of t i l"
  by (simp add: resource_of_def leaf_only_def split: sum.splits option.splits)

lemma lang_loop_cut:
  "lang_loop (cut_type t) (cut_id i) (map leaf_only ls) acc = lang_loop t i ls acc"
  by (induction ls arbitrary: acc) (simp_all split: sum.splits)

lemma id_loop_cut: "id_loop (cut_type t) (map cut_id is) acc = id_loop t is acc"
proof (induction "is" arbitrary: acc)
  case Nil
  then show ?case by simp
next
  case (Cons i "is")
  show ?case
  proof (cases "e_directory i")
    case None
    then show ?thesis by (simp add: cut_id_def)
  next
    case (Some langs)
    then have "e_directory (cut_id i) = Some (map leaf_only langs)"
      by (simp add: cut_id_def)
    then show ?thesis using Some Cons.IH
      by (simp add: lang_loop_cut split: prod.splits option.splits)
  qed
qed

lemma type_loop_cut: "type_loop (cut_below_3 ts) acc = type_loop ts acc"
proof (induction ts arbitrary: acc)
  case Nil
  then show ?case by (simp add: cut_below_3_def)
next
  case (Cons t ts)
  show ?case
  proof (cases "e_directory t")
    case None
    then show ?thesis by (simp add: cut_below_3_def cut_type_def)
  next
    case (Some ids)
    then have "e_directory (cut_type t) = Some (map cut_id ids)"
      by (simp add: cut_type_def)
    then show ?thesis using Some Cons.IH
      by (simp add: cut_below_3_def id_loop_cut split: prod.splits option.splits)
  qed
qed

lemma resource_of_data: "resource_of t i l = Inr r \<Longrightarrow> \<exists>d. e_data l = Some d"
  by (auto simp: resource_of_def split: sum.splits option.splits)

lemma lang_loop_origin:
  "lang_loop t i ls acc = (rs, x) \<Longrightarrow> r \<in> set rs \<Longrightarrow>
   r \<in> set acc \<or> (\<exists>l\<in>set ls. resource_of t i l = Inr r)"
proof (induction ls arbitrary: acc)
  case Nil
  then show ?case by simp
next
  case (Cons l ls)
  show ?case
  proof (cases "resource_of t i l")
    case (Inl e)
    with Cons.prems show ?thesis by simp
  next
    case (Inr r')
    with Cons.prems have "lang_loop t i ls (acc @ [r']) = (rs, x)" by simp
    from Cons.IH [OF this Cons.prems(2)] Inr show ?thesis by auto
  qed
qed

lemma id_loop_origin:
  "id_loop t is acc = (rs, x) \<Longrightarrow> r \<in> set rs \<Longrightarrow>
   r \<in> set acc \<or>
   (\<exists>i\<in>set is. \<exists>langs. e_directory i = Some langs \<and> (\<exists>l\<in>set langs. resource_of t i l = Inr r))"
proof (induction "is" arbitrary: acc)
  case Nil
  then show ?case by simp
next
  case (Cons i "is")
  show ?case
  proof (cases "e_directory i")
    case None
    with Cons.prems show ?thesis by simp
  next
    case (Some langs)
    obtain acc' y where ll: "lang_loop t i langs acc = (acc', y)" by (cases "lang_loop t i langs acc")
    show ?thesis
    proof (cases y)
      case None
      with Cons.prems Some ll have "id_loop t is acc' = (rs, x)" by simp
      from Cons.IH [OF this Cons.prems(2)] lang_loop_origin [OF ll] Some
      show ?thesis by auto
    next
      case (Some e)
      with Cons.prems \<open>e_directory i = Some langs\<close> ll have "rs = acc'" by simp
      with lang_loop_origin [OF ll] Cons.prems(2) \<open>e_directory i = Some langs\<close>
      show ?thesis by auto
    qed
  qed
qed

lemma type_loop_origin:
  "type_loop ts acc = (rs, x) \<Longrightarrow> r \<in> set rs \<Longrightarrow>
   r \<in> set acc \<or>
   (\<exists>t\<in>set ts. \<exists>ids. e_directory t = Some ids \<and>
      (\<exists>i\<in>set ids. \<exists>langs. e_directory i = Some langs \<and>
         (\<exists>l\<in>set langs. resource_of t i l = Inr r)))"
proof (induction ts arbitrary: acc)
  case Nil
  then show ?case by simp
next
  case (Cons t ts)
  show ?case
  proof (cases "e_directory t")
    case None
    with Cons.prems show ?thesis by simp
  next
    case (Some ids)
    obtain acc' y where il: "id_loop t ids acc = (acc', y)" by (cases "id_loop t ids acc")
    show ?thesis
    proof (cases y)
      case None
      with Cons.prems Some il have "type_loop ts acc' = (rs, x)" by simp
      from Cons.IH [OF this Cons.prems(2)] id_loop_origin [OF il] Some
      show ?thesis by auto
    next
      case (Some e)
      with Cons.prems \<open>e_directory t = Some ids\<close> il have "rs = acc'" by simp
      with id_loop_origin [OF il] Cons.prems(2) \<open>e_directory t = Some ids\<close>
      show ?thesis by auto
    qed
  qed
qed

lemma type_loop_at_depth_3:
  assumes "type_loop entries [] = (rs, x)" and "r \<in> set rs"
  shows "at_depth_3 entries r"
proof -
  from type_loop_origin [OF assms] obtain t ids i langs l where
    *: "t \<in> set entries" "e_directory t = Some ids" "i \<in> set ids" "e_directory i = Some langs"
    "l \<in> set langs" "resource_of t i l = Inr r"
    by auto
  from resource_of_data [OF *(6)] have "e_data l \<noteq> None" by auto
  with * show ?thesis unfolding at_depth_3_def by force
qed

lemma deep_run: "analyze_resources (loaded deep_pe) = Inr deep_result"
  by (simp add: analyze_resources_def deep_result_def deep_pe_def deep_resources_def loaded_def
      base_pe_def init_def say_def dir_entry_def data_entry_def resource_of_def entry_label_def
      hex_def hex_digit_def lit_def)

text \<open>
  C4. \<open>analyze_resources\<close> is three nested loops and nothing recursive. Its result is a
  flat list, and every record in it stems from a data entry exactly three levels down
  (type, id, language). Nothing below the third level is read: with everything below it
  removed from the input, the method stores the same list and prints the same lines.
\<close>

theorem resources_three_levels:
  assumes "pe a = Some p" and "DIRECTORY_ENTRY_RESOURCE p = Some entries"
    and "analyze_resources a = Inr a'"
  shows "(\<exists>rs. res_resources (analysis_results a') = Some rs \<and> list_all (at_depth_3 entries) rs)
         \<and> analyze_resources
             (a\<lparr>pe := Some (p\<lparr>DIRECTORY_ENTRY_RESOURCE := Some (cut_below_3 entries)\<rparr>)\<rparr>)
           = Inr (a'\<lparr>pe := Some (p\<lparr>DIRECTORY_ENTRY_RESOURCE := Some (cut_below_3 entries)\<rparr>)\<rparr>)"
proof -
  obtain rs x where tl: "type_loop entries [] = (rs, x)" by (cases "type_loop entries []")
  have all: "list_all (at_depth_3 entries) rs"
    using type_loop_at_depth_3 [OF tl] by (simp add: list_all_iff)
  have ok: "x = None \<or> x = Some AttributeError"
    using assms tl by (auto simp: analyze_resources_def split: option.splits if_splits)
  have stored: "res_resources (analysis_results a') = Some rs"
    using assms tl ok by (auto simp: analyze_resources_def say_def)
  have cut: "analyze_resources
             (a\<lparr>pe := Some (p\<lparr>DIRECTORY_ENTRY_RESOURCE := Some (cut_below_3 entries)\<rparr>)\<rparr>)
           = Inr (a'\<lparr>pe := Some (p\<lparr>DIRECTORY_ENTRY_RESOURCE := Some (cut_below_3 entries)\<rparr>)\<rparr>)"
    using assms tl ok by (auto simp: analyze_resources_def say_def type_loop_cut)
  from stored all cut show ?thesis by simp
qed

theorem resources_three_levels_witness:
  "list_all (at_depth_3 deep_resources) (the (res_resources (analysis_results deep_result)))
   \<and> analyze_resources
       ((loaded deep_pe)\<lparr>pe := Some (deep_pe\<lparr>DIRECTORY_ENTRY_RESOURCE :=
                                                Some (cut_below_3 deep_resources)\<rparr>)\<rparr>)
     = Inr (deep_result\<lparr>pe := Some (deep_pe\<lparr>DIRECTORY_ENTRY_RESOURCE :=
                                                 Some (cut_below_3 deep_resources)\<rparr>)\<rparr>)"
proof -
  have 1: "pe (loaded deep_pe) = Some deep_pe" by (simp add: loaded_def)
  have 2: "DIRECTORY_ENTRY_RESOURCE deep_pe = Some deep_resources" by (simp add: deep_pe_def)
  from resources_three_levels [OF 1 2 deep_run] show ?thesis by auto
qed

subsection \<open>Section names\<close>


lemma decode_step_append:
  "decode_step xs = Some (cp, rest) \<Longrightarrow> decode_step (xs @ ys) = Some (cp, rest @ ys)"
  by (cases xs) (auto split: if_splits list.splits)

lemma decode_Cons:
  "decode_step xs = Some (cp, rest) \<Longrightarrow> decode xs = map_option (Cons cp) (decode rest)"
  by (cases xs) (simp_all del: decode_step.simps(2))

lemma decode_append:
  "decode xs = Some s \<Longrightarrow> decode (xs @ ys) = map_option ((@) s) (decode ys)"
proof (induction xs arbitrary: s rule: decode.induct)
  case 1
  then show ?case by (cases "decode ys") simp_all
next
  case (2 b bs)
  from "2.prems" obtain cp rest where st: "decode_step (b # bs) = Some (cp, rest)"
    by (cases "decode_step (b # bs)") (auto simp del: decode_step.simps)
  with "2.prems" obtain s' where s': "decode rest = Some s'" "s = cp # s'"
    by (auto simp del: decode_step.simps)
  have "decode (rest @ ys) = map_option ((@) s') (decode ys)"
    using "2.IH" [OF st refl s'(1)] .
  moreover have "decode ((b # bs) @ ys) = map_option (Cons cp) (decode (rest @ ys))"
    using decode_step_append [OF st, of ys] by (rule decode_Cons)
  ultimately show ?case using s'(2) by (cases "decode ys") simp_all
qed
















end
